theory Spec2Isabelle
  imports Main "HOL-Library.Char_ord" "HOL-Library.Sublist"
begin

section \<open>Python values and exceptions\<close>

text \<open>
  The values that flow through \<^verbatim>\<open>client.py\<close>: the arguments of the public methods, the
  entries of the parameter dictionary and whatever \<^verbatim>\<open>req.json()\<close> returns. A dictionary
  is the list of its items in insertion order (the keys of a Python dict are distinct);
  a float is kept as its literal, since the client never computes with one.
\<close>

datatype pyval =
    PyNone
  | PyBool bool
  | PyInt int
  | PyFloat string
  | PyStr string
  | PyList "pyval list"
  | PyDict "(string \<times> pyval) list"

text \<open>
  What \<^verbatim>\<open>self._session.get\<close>, \<^verbatim>\<open>self._session.post\<close> and \<^verbatim>\<open>req.raise_for_status\<close>
  of the \<^verbatim>\<open>requests\<close> library can raise. \<^verbatim>\<open>ProxyError\<close>, \<^verbatim>\<open>SSLError\<close> and
  \<^verbatim>\<open>ConnectTimeout\<close> are subclasses of \<^verbatim>\<open>requests.ConnectionError\<close>;
  \<^verbatim>\<open>ReadTimeout\<close> and the remaining request exceptions are not.
\<close>

datatype requests_exception =
    requests_ConnectionError
  | requests_ProxyError
  | requests_SSLError
  | requests_ConnectTimeout
  | requests_ReadTimeout
  | requests_HTTPError
  | requests_Other string

fun isinstance_ConnectionError :: "requests_exception \<Rightarrow> bool" where
  "isinstance_ConnectionError requests_ConnectionError = True"
| "isinstance_ConnectionError requests_ProxyError = True"
| "isinstance_ConnectionError requests_SSLError = True"
| "isinstance_ConnectionError requests_ConnectTimeout = True"
| "isinstance_ConnectionError _ = False"

fun isinstance_HTTPError :: "requests_exception \<Rightarrow> bool" where
  "isinstance_HTTPError requests_HTTPError = True"
| "isinstance_HTTPError _ = False"

text \<open>
  The exceptions a public method can leave with: the three of
  \<^verbatim>\<open>pyadtsecurehome.exceptions\<close>, the built-in ones raised by a failed subscript, string
  concatenation or attribute access, the decoder's \<^verbatim>\<open>RecursionError\<close>, and a request
  exception that no \<^verbatim>\<open>except\<close> clause catches.
\<close>

datatype error =
    InvalidURL string
  | HTTPError
  | PyAdtSecureHomeError string
  | KeyError string
  | TypeError
  | AttributeError
  | RecursionError
  | Uncaught requests_exception

section \<open>The HTTP transport\<close>

datatype verb = GET | POST

record request =
  verb :: verb
  url :: string
  allow_redirects :: bool
  params :: "string \<rightharpoonup> pyval"
  req_timeout :: int

text \<open>
  What \<^verbatim>\<open>json()\<close> raises when it does not return: a \<^verbatim>\<open>ValueError\<close> (the decoder's
  \<^verbatim>\<open>JSONDecodeError\<close> is one) whose \<^verbatim>\<open>str\<close> is the given reason, or, on a body
  nested deeper than the interpreter's recursion limit, a \<^verbatim>\<open>RecursionError\<close>, which
  is not a \<^verbatim>\<open>ValueError\<close>.
\<close>

datatype json_exception = json_ValueError string | json_RecursionError

text \<open>
  A response as the client reads it: \<^verbatim>\<open>status_code\<close>, \<^verbatim>\<open>text\<close>, and the result of
  \<^verbatim>\<open>json()\<close>, which is either the decoded value or the exception raised.
\<close>

record response =
  status_code :: int
  resp_text :: string
  json :: "json_exception + pyval"

text \<open>What one call of the transport does: it raises, or it returns a response.\<close>

datatype outcome = Raises requests_exception | Returns response

text \<open>
  \<^verbatim>\<open>Response.raise_for_status\<close> of \<^verbatim>\<open>requests\<close> raises \<^verbatim>\<open>requests.HTTPError\<close> for
  a client error (400 to 499) and for a server error (500 to 599), and for no other
  status code.
\<close>

definition raise_for_status :: "response \<Rightarrow> bool" where
  "raise_for_status req \<longleftrightarrow>
     (400 \<le> status_code req \<and> status_code req < 500) \<or>
     (500 \<le> status_code req \<and> status_code req < 600)"

text \<open>
  A session holds its default headers in a case-insensitive dictionary, which stores
  under the lowered key the pair of the key as written and the value.
\<close>

definition lower_char :: "char \<Rightarrow> char" where
  "lower_char c =
     (if CHR ''A'' \<le> c \<and> c \<le> CHR ''Z'' then char_of (of_char c + (32::nat)) else c)"

definition lower :: "string \<Rightarrow> string" where
  "lower s = map lower_char s"

type_synonym header_dict = "string \<rightharpoonup> string \<times> string"

definition update_headers :: "header_dict \<Rightarrow> (string \<times> string) list \<Rightarrow> header_dict" where
  "update_headers h kvs = foldl (\<lambda>m (k, v). m(lower k \<mapsto> (k, v))) h kvs"

record session =
  headers :: header_dict

section \<open>Client state, module state and effects\<close>

record client =
  email :: pyval
  password :: pyval
  session :: "session option"
  token :: pyval
  timeout :: int

text \<open>
  The effects of a method on the outside, in the order they happen: closing a session,
  creating one, issuing a request over a session, and calling \<^verbatim>\<open>json()\<close> on a response.
\<close>

datatype event =
    Session_close session
  | Session_new session
  | Http_request session request
  | Json_decode response

text \<open>
  \<^verbatim>\<open>STD_PARAMS\<close> is a dictionary of the module \<^verbatim>\<open>constants\<close>: one object for the whole
  process. Every method binds \<^verbatim>\<open>_params\<close> to that very object, so an assignment to
  \<^verbatim>\<open>_params[k]\<close> is an assignment to \<^verbatim>\<open>STD_PARAMS[k]\<close>. Its initial content is not
  part of \<^verbatim>\<open>client.py\<close> and is left open.
\<close>

record world =
  STD_PARAMS :: "string \<rightharpoonup> pyval"
  trace :: "event list"

definition emit :: "event \<Rightarrow> world \<Rightarrow> world" where
  "emit e w = w\<lparr>trace := trace w @ [e]\<rparr>"

definition setitem :: "string \<Rightarrow> pyval \<Rightarrow> world \<Rightarrow> world" where
  "setitem k v w = w\<lparr>STD_PARAMS := (STD_PARAMS w)(k \<mapsto> v)\<rparr>"

fun http_requests :: "event list \<Rightarrow> request list" where
  "http_requests [] = []"
| "http_requests (Http_request s r # es) = r # http_requests es"
| "http_requests (e # es) = http_requests es"

fun json_decodes :: "event list \<Rightarrow> response list" where
  "json_decodes [] = []"
| "json_decodes (Json_decode r # es) = r # json_decodes es"
| "json_decodes (e # es) = json_decodes es"

section \<open>Constants of client.py\<close>

definition BASE_URL :: string where
  "BASE_URL = ''ids.trintel.co.za/Inhep-Impl-1.0-SNAPSHOT/''"

definition API_ENDPOINT_LOGIN :: string where
  "API_ENDPOINT_LOGIN = ''/auth/login''"

definition API_ENDPOINT_CHECK_APP_VERSION :: string where
  "API_ENDPOINT_CHECK_APP_VERSION = ''/auth/checkAppVersion''"

definition API_ENDPOINT_SITE_NOTIFICATIONS :: string where
  "API_ENDPOINT_SITE_NOTIFICATIONS = ''/device/getSiteNotifications''"

definition API_ENDPOINT_SYNC_INFO :: string where
  "API_ENDPOINT_SYNC_INFO = ''/device/getSyncInfo''"

definition API_ENDPOINT_STATE_INFO :: string where
  "API_ENDPOINT_STATE_INFO = ''/device/getStateInfo''"

definition API_ENDPOINT_NOTIFICATION_SUBSCRIPTIONS :: string where
  "API_ENDPOINT_NOTIFICATION_SUBSCRIPTIONS = ''/device/getNotificationSubscriptions''"

definition API_ENDPOINT_GET_USER_PREFERANCES :: string where
  "API_ENDPOINT_GET_USER_PREFERANCES = ''/user/getUserPreferences''"

definition API_ENDPOINT_SET_USER_PREFERANCE :: string where
  "API_ENDPOINT_SET_USER_PREFERANCE = ''/user/setUserPreference''"

definition API_ENDPOINT_SECURITY_COMPANIES :: string where
  "API_ENDPOINT_SECURITY_COMPANIES = ''/security-companies/list''"

definition API_ENDPOINT_STORE_GCM_REGISTRATION_ID :: string where
  "API_ENDPOINT_STORE_GCM_REGISTRATION_ID = ''/user/storeGcmRegistrationId''"

definition API_ENDPOINT_ARM_SITE :: string where
  "API_ENDPOINT_ARM_SITE = ''/device/armSite''"

section \<open>Session handling\<close>

text \<open>
  \<^verbatim>\<open>close_session\<close>: a session object is always truthy, so the test
  \<^verbatim>\<open>if self._session\<close> asks whether the attribute is not \<^verbatim>\<open>None\<close>. The headers of a
  new \<^verbatim>\<open>requests.session()\<close> and the dictionary \<^verbatim>\<open>REQUEST_HEADER\<close> of
  \<^verbatim>\<open>constants\<close> are not part of \<^verbatim>\<open>client.py\<close>; they are parameters.
\<close>

definition close_session ::
  "(string \<times> string) list \<Rightarrow> header_dict \<Rightarrow> client \<Rightarrow> world \<Rightarrow> client \<times> world" where
  "close_session REQUEST_HEADER default_headers self w =
     (let w1 = (case session self of None \<Rightarrow> w | Some s \<Rightarrow> emit (Session_close s) w);
          s0 = \<lparr>headers = default_headers\<rparr>;
          w2 = emit (Session_new s0) w1;
          s1 = s0\<lparr>headers := update_headers (headers s0) REQUEST_HEADER\<rparr>
      in (self\<lparr>session := Some s1\<rparr>, w2))"

definition logout ::
  "(string \<times> string) list \<Rightarrow> header_dict \<Rightarrow> client \<Rightarrow> world \<Rightarrow> client \<times> world" where
  "logout REQUEST_HEADER default_headers self w =
     close_session REQUEST_HEADER default_headers self w"

text \<open>
  \<^verbatim>\<open>__init__\<close> assigns \<^verbatim>\<open>_token\<close> and \<^verbatim>\<open>_timeout\<close> after it has called
  \<^verbatim>\<open>close_session\<close>, which reads and writes \<^verbatim>\<open>_session\<close> only.
\<close>

definition init ::
  "(string \<times> string) list \<Rightarrow> header_dict \<Rightarrow> pyval \<Rightarrow> pyval \<Rightarrow> int \<Rightarrow> pyval \<Rightarrow> world
     \<Rightarrow> client \<times> world" where
  "init REQUEST_HEADER default_headers email0 password0 timeout0 token0 w =
     (let self = \<lparr>email = email0, password = password0, session = None,
                  token = token0, timeout = timeout0\<rparr>;
          (self1, w1) = close_session REQUEST_HEADER default_headers self w
      in (self1\<lparr>token := token0, timeout := timeout0\<rparr>, w1))"

section \<open>The request block shared by every method\<close>

text \<open>Subscripting with a string key: only a dictionary that has the key answers.\<close>

fun getitem :: "pyval \<Rightarrow> string \<Rightarrow> error + pyval" where
  "getitem (PyDict kvs) k = (case map_of kvs k of None \<Rightarrow> Inl (KeyError k) | Some v \<Rightarrow> Inr v)"
| "getitem _ k = Inl TypeError"

text \<open>
  From the first \<^verbatim>\<open>try\<close> to the status check, the eleven methods are the same text;
  they differ in the verb, the endpoint and the prefix of the error message.
  \<^verbatim>\<open>api_call\<close> is that text. The transport is not part of the repository: what it does
  on this call is the argument \<^verbatim>\<open>out\<close>. Python's \<^verbatim>\<open>str\<close> of a decoded value, used by
  the f-strings, is the parameter \<^verbatim>\<open>str\<close>. The second \<^verbatim>\<open>try\<close> has the one clause
  \<^verbatim>\<open>except ValueError\<close>, so any other exception of \<^verbatim>\<open>json()\<close> passes through it.
\<close>

definition api_call ::
  "(pyval \<Rightarrow> string) \<Rightarrow> verb \<Rightarrow> string \<Rightarrow> string \<Rightarrow> outcome \<Rightarrow> client \<Rightarrow> world
     \<Rightarrow> (error + pyval) \<times> world" where
  "api_call str v endpoint msg out self w =
     (case session self of
        None \<Rightarrow> (Inl AttributeError, w)
      | Some s \<Rightarrow>
          let w1 = emit (Http_request s
                     \<lparr>verb = v, url = ''https://'' @ BASE_URL @ endpoint,
                      allow_redirects = False, params = STD_PARAMS w,
                      req_timeout = timeout self\<rparr>) w
          in (case out of
                Raises err \<Rightarrow>
                  if isinstance_ConnectionError err
                  then (Inl (InvalidURL ''A Invalid URL or Proxy error occured''), w1)
                  else if isinstance_HTTPError err then (Inl HTTPError, w1)
                  else (Inl (Uncaught err), w1)
              | Returns req \<Rightarrow>
                  if raise_for_status req then (Inl HTTPError, w1)
                  else
                    let w2 = emit (Json_decode req) w1
                    in (case json req of
                          Inl (json_ValueError err) \<Rightarrow>
                            (Inl (PyAdtSecureHomeError
                                   (''Impossible to decode response: '' @ err
                                    @ [CHR 0x0A] @ ''Response was: '' @ resp_text req)), w2)
                        | Inl json_RecursionError \<Rightarrow> (Inl RecursionError, w2)
                        | Inr json_result \<Rightarrow>
                            (case getitem json_result ''status'' of
                               Inl e \<Rightarrow> (Inl e, w2)
                             | Inr status \<Rightarrow>
                                 if status \<noteq> PyStr ''SUCCESS''
                                 then (Inl (PyAdtSecureHomeError (msg @ str json_result)), w2)
                                 else (Inr json_result, w2)))))"

text \<open>The request that \<^verbatim>\<open>api_call\<close> issues from the world \<open>w\<close>.\<close>

definition the_request :: "verb \<Rightarrow> string \<Rightarrow> client \<Rightarrow> world \<Rightarrow> request" where
  "the_request v e self w =
     \<lparr>verb = v, url = ''https://'' @ BASE_URL @ e, allow_redirects = False,
      params = STD_PARAMS w, req_timeout = timeout self\<rparr>"

section \<open>The public methods\<close>

definition login ::
  "(pyval \<Rightarrow> string) \<Rightarrow> outcome \<Rightarrow> client \<Rightarrow> world \<Rightarrow> (error + pyval) \<times> client \<times> world" where
  "login str out self w =
     (let w1 = setitem ''email'' (email self) w;
          w2 = setitem ''password'' (password self) w1
      in (case api_call str GET API_ENDPOINT_LOGIN ''Login error: '' out self w2 of
            (Inl e, w3) \<Rightarrow> (Inl e, self, w3)
          | (Inr json_result, w3) \<Rightarrow>
              (case getitem json_result ''token'' of
                 Inl e \<Rightarrow> (Inl e, self, w3)
               | Inr t \<Rightarrow> (Inr json_result, self\<lparr>token := t\<rparr>, w3))))"

text \<open>
  \<^verbatim>\<open>check_app_version\<close> reads \<^verbatim>\<open>STD_PARAMS["imei"]\<close> after it has stored the token;
  a dictionary without that key raises \<^verbatim>\<open>KeyError\<close> there.
\<close>

definition check_app_version ::
  "(pyval \<Rightarrow> string) \<Rightarrow> outcome \<Rightarrow> client \<Rightarrow> world \<Rightarrow> (error + pyval) \<times> world" where
  "check_app_version str out self w =
     (let w1 = setitem ''token'' (token self) w
      in (case STD_PARAMS w1 ''imei'' of
            None \<Rightarrow> (Inl (KeyError ''imei''), w1)
          | Some imei \<Rightarrow>
              api_call str GET API_ENDPOINT_CHECK_APP_VERSION
                ''Error checking app version from api: '' out self
                (setitem ''clientImei'' imei w1)))"

definition site_notifications ::
  "(pyval \<Rightarrow> string) \<Rightarrow> outcome \<Rightarrow> client \<Rightarrow> world \<Rightarrow> (error + pyval) \<times> world" where
  "site_notifications str out self w =
     api_call str GET API_ENDPOINT_SITE_NOTIFICATIONS
       ''Error getting site notifications from api: '' out self
       (setitem ''token'' (token self) w)"

definition get_sync_info ::
  "(pyval \<Rightarrow> string) \<Rightarrow> outcome \<Rightarrow> client \<Rightarrow> world \<Rightarrow> (error + pyval) \<times> world" where
  "get_sync_info str out self w =
     api_call str GET API_ENDPOINT_SYNC_INFO
       ''Error getting sync info from api: '' out self
       (setitem ''token'' (token self) w)"

definition get_state_info ::
  "(pyval \<Rightarrow> string) \<Rightarrow> outcome \<Rightarrow> client \<Rightarrow> world \<Rightarrow> (error + pyval) \<times> world" where
  "get_state_info str out self w =
     api_call str GET API_ENDPOINT_STATE_INFO
       ''Error getting state info from api: '' out self
       (setitem ''token'' (token self) w)"

definition get_notification_subscriptions ::
  "(pyval \<Rightarrow> string) \<Rightarrow> outcome \<Rightarrow> client \<Rightarrow> world \<Rightarrow> (error + pyval) \<times> world" where
  "get_notification_subscriptions str out self w =
     api_call str GET API_ENDPOINT_NOTIFICATION_SUBSCRIPTIONS
       ''Error getting notification subscriptions: '' out self
       (setitem ''token'' (token self) w)"

definition get_user_preferences ::
  "(pyval \<Rightarrow> string) \<Rightarrow> outcome \<Rightarrow> client \<Rightarrow> world \<Rightarrow> (error + pyval) \<times> world" where
  "get_user_preferences str out self w =
     api_call str GET API_ENDPOINT_GET_USER_PREFERANCES
       ''Error getting user preferences: '' out self
       (setitem ''token'' (token self) w)"

definition get_security_companies ::
  "(pyval \<Rightarrow> string) \<Rightarrow> outcome \<Rightarrow> client \<Rightarrow> world \<Rightarrow> (error + pyval) \<times> world" where
  "get_security_companies str out self w =
     api_call str GET API_ENDPOINT_SECURITY_COMPANIES
       ''Failed to get security companies: '' out self
       (setitem ''token'' (token self) w)"

definition store_gcm_registrationid ::
  "(pyval \<Rightarrow> string) \<Rightarrow> outcome \<Rightarrow> client \<Rightarrow> pyval \<Rightarrow> world \<Rightarrow> (error + pyval) \<times> world" where
  "store_gcm_registrationid str out self gcm_id w =
     (let w1 = setitem ''token'' (token self) w;
          w2 = setitem ''gcmId'' gcm_id w1
      in api_call str POST API_ENDPOINT_STORE_GCM_REGISTRATION_ID
           ''Storing gcm id failed with: '' out self w2)"

text \<open>
  \<^verbatim>\<open>"site." + site_id\<close>: a string plus anything that is not a string raises
  \<^verbatim>\<open>TypeError\<close>.
\<close>

fun str_add :: "string \<Rightarrow> pyval \<Rightarrow> error + string" where
  "str_add a (PyStr b) = Inr (a @ b)"
| "str_add a _ = Inl TypeError"

definition set_user_preference ::
  "(pyval \<Rightarrow> string) \<Rightarrow> outcome \<Rightarrow> client \<Rightarrow> pyval \<Rightarrow> pyval \<Rightarrow> pyval \<Rightarrow> pyval \<Rightarrow> world
     \<Rightarrow> (error + pyval) \<times> world" where
  "set_user_preference str out self site_id partition_id new_code store_for w =
     (if store_for \<notin> set [PyStr ''Arm'', PyStr ''Bypass'']
      then (Inl (PyAdtSecureHomeError ''Invalid selection, choose between Arm or Bypass''), w)
      else
        let w1 = setitem ''token'' (token self) w;
            w2 = setitem ''siteId'' site_id w1
        in (case str_add ''site.'' site_id of
              Inl e \<Rightarrow> (Inl e, w2)
            | Inr a \<Rightarrow>
                (case str_add (a @ ''.partition.'') partition_id of
                   Inl e \<Rightarrow> (Inl e, w2)
                 | Inr b \<Rightarrow>
                     (case str_add (b @ ''.storeFor'') store_for of
                        Inl e \<Rightarrow> (Inl e, w2)
                      | Inr name \<Rightarrow>
                          let w3 = setitem ''name'' (PyStr name) w2;
                              w4 = setitem ''preference_value'' new_code w3
                          in api_call str POST API_ENDPOINT_SET_USER_PREFERANCE
                               ''Set user preferance failed with: '' out self w4))))"

definition arm_site ::
  "(pyval \<Rightarrow> string) \<Rightarrow> outcome \<Rightarrow> client \<Rightarrow> pyval \<Rightarrow> pyval \<Rightarrow> pyval \<Rightarrow> pyval \<Rightarrow> world
     \<Rightarrow> (error + pyval) \<times> world" where
  "arm_site str out self arm pin partition_id site_id w =
     (let w1 = setitem ''token'' (token self) w;
          w2 = setitem ''arm'' arm w1;
          w3 = setitem ''pin'' pin w2;
          w4 = setitem ''partitionId'' partition_id w3;
          w5 = setitem ''siteId'' site_id w4
      in api_call str GET API_ENDPOINT_ARM_SITE ''Arm site failed: '' out self w5)"

section \<open>All public methods at once\<close>

text \<open>
  A call of a public method with its arguments, and the function that performs it.
  Only \<^verbatim>\<open>login\<close> assigns to an attribute of the client.
\<close>

datatype operation =
    Login
  | Check_app_version
  | Site_notifications
  | Get_sync_info
  | Get_state_info
  | Get_notification_subscriptions
  | Get_user_preferences
  | Get_security_companies
  | Store_gcm_registrationid pyval
  | Set_user_preference pyval pyval pyval pyval
  | Arm_site pyval pyval pyval pyval

fun run ::
  "(pyval \<Rightarrow> string) \<Rightarrow> outcome \<Rightarrow> operation \<Rightarrow> client \<Rightarrow> world
     \<Rightarrow> (error + pyval) \<times> client \<times> world" where
  "run str out Login self w = login str out self w"
| "run str out Check_app_version self w =
     (let (r, w') = check_app_version str out self w in (r, self, w'))"
| "run str out Site_notifications self w =
     (let (r, w') = site_notifications str out self w in (r, self, w'))"
| "run str out Get_sync_info self w =
     (let (r, w') = get_sync_info str out self w in (r, self, w'))"
| "run str out Get_state_info self w =
     (let (r, w') = get_state_info str out self w in (r, self, w'))"
| "run str out Get_notification_subscriptions self w =
     (let (r, w') = get_notification_subscriptions str out self w in (r, self, w'))"
| "run str out Get_user_preferences self w =
     (let (r, w') = get_user_preferences str out self w in (r, self, w'))"
| "run str out Get_security_companies self w =
     (let (r, w') = get_security_companies str out self w in (r, self, w'))"
| "run str out (Store_gcm_registrationid gcm_id) self w =
     (let (r, w') = store_gcm_registrationid str out self gcm_id w in (r, self, w'))"
| "run str out (Set_user_preference site_id partition_id new_code store_for) self w =
     (let (r, w') = set_user_preference str out self site_id partition_id new_code store_for w
      in (r, self, w'))"
| "run str out (Arm_site arm pin partition_id site_id) self w =
     (let (r, w') = arm_site str out self arm pin partition_id site_id w in (r, self, w'))"

text \<open>The literal text that each method puts in front of the payload in its status error.\<close>

fun error_prefix :: "operation \<Rightarrow> string" where
  "error_prefix Login = ''Login error: ''"
| "error_prefix Check_app_version = ''Error checking app version from api: ''"
| "error_prefix Site_notifications = ''Error getting site notifications from api: ''"
| "error_prefix Get_sync_info = ''Error getting sync info from api: ''"
| "error_prefix Get_state_info = ''Error getting state info from api: ''"
| "error_prefix Get_notification_subscriptions = ''Error getting notification subscriptions: ''"
| "error_prefix Get_user_preferences = ''Error getting user preferences: ''"
| "error_prefix Get_security_companies = ''Failed to get security companies: ''"
| "error_prefix (Store_gcm_registrationid gcm_id) = ''Storing gcm id failed with: ''"
| "error_prefix (Set_user_preference site_id partition_id new_code store_for) =
     ''Set user preferance failed with: ''"
| "error_prefix (Arm_site arm pin partition_id site_id) = ''Arm site failed: ''"

text \<open>
  The statements of a method in front of its request raise nothing exactly when the
  client has a session and the arguments pass: for \<^verbatim>\<open>check_app_version\<close>,
  \<^verbatim>\<open>STD_PARAMS\<close> has the key \<^verbatim>\<open>imei\<close>; for \<^verbatim>\<open>set_user_preference\<close>, the selection
  is valid and the two identifiers are strings. Lemma \<open>issues_request_iff\<close> below
  checks this description against the methods.
\<close>

fun is_str :: "pyval \<Rightarrow> bool" where
  "is_str (PyStr s) = True"
| "is_str _ = False"

fun args_ok :: "operation \<Rightarrow> world \<Rightarrow> bool" where
  "args_ok Check_app_version w \<longleftrightarrow> STD_PARAMS w ''imei'' \<noteq> None"
| "args_ok (Set_user_preference site_id partition_id new_code store_for) w \<longleftrightarrow>
     store_for \<in> set [PyStr ''Arm'', PyStr ''Bypass''] \<and> is_str site_id \<and> is_str partition_id"
| "args_ok _ w \<longleftrightarrow> True"

definition issues_request :: "operation \<Rightarrow> client \<Rightarrow> world \<Rightarrow> bool" where
  "issues_request op self w \<longleftrightarrow> session self \<noteq> None \<and> args_ok op w"

text \<open>The events that a step from \<open>w\<close> to \<open>w'\<close> has added to the trace.\<close>

definition new_events :: "world \<Rightarrow> world \<Rightarrow> event list" where
  "new_events w w' = drop (length (trace w)) (trace w')"

text \<open>
  A caller that performs one call after the other on the same client, whatever each
  call returns or raises.
\<close>

fun run_all ::
  "(pyval \<Rightarrow> string) \<Rightarrow> (operation \<times> outcome) list \<Rightarrow> client \<Rightarrow> world \<Rightarrow> client \<times> world" where
  "run_all str [] self w = (self, w)"
| "run_all str ((op, out) # calls) self w =
     (case run str out op self w of (r, self', w') \<Rightarrow> run_all str calls self' w')"

section \<open>Values for the examples\<close>

text \<open>
  Python's \<^verbatim>\<open>str\<close> on the decoded values of the examples: strings without quotes,
  backslashes or control characters, and floats as their literal.
\<close>

fun digits :: "nat \<Rightarrow> string" where
  "digits n =
     (if n < 10 then [char_of (48 + n)] else digits (n div 10) @ [char_of (48 + n mod 10)])"

declare digits.simps [simp del]

fun join :: "string \<Rightarrow> string list \<Rightarrow> string" where
  "join sep [] = []"
| "join sep [x] = x"
| "join sep (x # y # ys) = x @ sep @ join sep (y # ys)"

fun py_repr :: "pyval \<Rightarrow> string" where
  "py_repr PyNone = ''None''"
| "py_repr (PyBool b) = (if b then ''True'' else ''False'')"
| "py_repr (PyInt i) = (if i < 0 then ''-'' @ digits (nat (- i)) else digits (nat i))"
| "py_repr (PyFloat l) = l"
| "py_repr (PyStr s) = [CHR 0x27] @ s @ [CHR 0x27]"
| "py_repr (PyList xs) = ''['' @ join '', '' (map py_repr xs) @ '']''"
| "py_repr (PyDict kvs) =
     ''{'' @ join '', '' (map (\<lambda>kv. [CHR 0x27] @ fst kv @ [CHR 0x27] @ '': '' @ py_repr (snd kv)) kvs)
     @ ''}''"

definition example_session :: session where
  "example_session = \<lparr>headers = Map.empty\<rparr>"

definition example_client :: client where
  "example_client =
     \<lparr>email = PyStr ''user@example.com'', password = PyStr ''secret'',
      session = Some example_session, token = PyNone, timeout = 25\<rparr>"

definition example_world :: world where
  "example_world = \<lparr>STD_PARAMS = [''imei'' \<mapsto> PyStr ''356938035643809''], trace = []\<rparr>"

definition login_ok :: response where
  "login_ok =
     \<lparr>status_code = 200, resp_text = ''{status: SUCCESS, token: abc123}'',
      json = Inr (PyDict [(''status'', PyStr ''SUCCESS''), (''token'', PyStr ''abc123'')])\<rparr>"

definition status_ok :: response where
  "status_ok =
     \<lparr>status_code = 200, resp_text = ''{status: SUCCESS}'',
      json = Inr (PyDict [(''status'', PyStr ''SUCCESS'')])\<rparr>"


definition no_status :: response where
  "no_status =
     \<lparr>status_code = 200, resp_text = ''{sites: []}'',
      json = Inr (PyDict [(''sites'', PyList [])])\<rparr>"

definition not_json :: response where
  "not_json =
     \<lparr>status_code = 200, resp_text = ''<html>maintenance</html>'',
      json = Inl (json_ValueError ''Expecting value: line 1 column 1 (char 0)'')\<rparr>"

text \<open>A body of 100000 opening brackets: the decoder gives up with \<^verbatim>\<open>RecursionError\<close>.\<close>

definition opening_brackets :: string where
  "opening_brackets = replicate 100000 (CHR ''['')"

definition deeply_nested :: response where
  "deeply_nested =
     \<lparr>status_code = 200, resp_text = opening_brackets, json = Inl json_RecursionError\<rparr>"

definition redirect_302 :: response where
  "redirect_302 =
     \<lparr>status_code = 302, resp_text = ''<html>moved</html>'',
      json = Inl (json_ValueError ''Expecting value: line 1 column 1 (char 0)'')\<rparr>"

definition server_error_500 :: response where
  "server_error_500 =
     \<lparr>status_code = 500, resp_text = ''Internal Server Error'',
      json = Inl (json_ValueError ''Expecting value: line 1 column 1 (char 0)'')\<rparr>"

definition example_REQUEST_HEADER :: "(string \<times> string) list" where
  "example_REQUEST_HEADER = [(''User-Agent'', ''okhttp/3.12.1'')]"

definition example_default_headers :: header_dict where
  "example_default_headers =
     [''user-agent'' \<mapsto> (''User-Agent'', ''python-requests/2.31.0''),
      ''accept'' \<mapsto> (''Accept'', ''*/*'')]"

section \<open>Basic facts\<close>

lemma trace_setitem [simp]: "trace (setitem k v w) = trace w"
  by (simp add: setitem_def)

lemma STD_PARAMS_setitem [simp]: "STD_PARAMS (setitem k v w) = (STD_PARAMS w)(k \<mapsto> v)"
  by (simp add: setitem_def)

lemma trace_emit [simp]: "trace (emit e w) = trace w @ [e]"
  by (simp add: emit_def)

lemma STD_PARAMS_emit [simp]: "STD_PARAMS (emit e w) = STD_PARAMS w"
  by (simp add: emit_def)

lemma new_events_append: "trace w' = trace w @ es \<Longrightarrow> new_events w w' = es"
  by (simp add: new_events_def)

lemma new_events_same [simp]: "new_events w w = []"
  by (simp add: new_events_def)

lemma is_str_conv: "is_str v \<longleftrightarrow> (\<exists>s. v = PyStr s)"
  by (cases v) simp_all

lemma keep_client [simp]: "(case p of (r, w') \<Rightarrow> (r, self, w')) = (fst p, self, snd p)"
  by (cases p) simp

lemma status_2xx: "200 \<le> status_code req \<Longrightarrow> status_code req < 300 \<Longrightarrow> \<not> raise_for_status req"
  by (simp add: raise_for_status_def)

lemmas other_defs = check_app_version_def site_notifications_def get_sync_info_def
  get_state_info_def get_notification_subscriptions_def get_user_preferences_def
  get_security_companies_def store_gcm_registrationid_def set_user_preference_def arm_site_def

lemmas op_defs = login_def other_defs

lemmas example_defs = example_world_def example_client_def example_session_def

subsection \<open>The request block, branch by branch\<close>

lemma api_call_no_session:
  "session self = None \<Longrightarrow> api_call str v e m out self w = (Inl AttributeError, w)"
  by (simp add: api_call_def)

lemma api_call_raises:
  "session self = Some s \<Longrightarrow>
   api_call str v e m (Raises err) self w =
     (if isinstance_ConnectionError err
      then Inl (InvalidURL ''A Invalid URL or Proxy error occured'')
      else if isinstance_HTTPError err then Inl HTTPError else Inl (Uncaught err),
      emit (Http_request s (the_request v e self w)) w)"
  by (simp add: api_call_def the_request_def)

lemma api_call_http_error:
  "session self = Some s \<Longrightarrow> raise_for_status req \<Longrightarrow>
   api_call str v e m (Returns req) self w =
     (Inl HTTPError, emit (Http_request s (the_request v e self w)) w)"
  by (simp add: api_call_def the_request_def)

lemma api_call_decoded:
  "session self = Some s \<Longrightarrow> \<not> raise_for_status req \<Longrightarrow>
   api_call str v e m (Returns req) self w =
     (case json req of
        Inl (json_ValueError reason) \<Rightarrow>
          Inl (PyAdtSecureHomeError (''Impossible to decode response: '' @ reason
                 @ [CHR 0x0A] @ ''Response was: '' @ resp_text req))
      | Inl json_RecursionError \<Rightarrow> Inl RecursionError
      | Inr payload \<Rightarrow>
          (case getitem payload ''status'' of
             Inl e \<Rightarrow> Inl e
           | Inr status \<Rightarrow>
               if status \<noteq> PyStr ''SUCCESS''
               then Inl (PyAdtSecureHomeError (m @ str payload)) else Inr payload),
      emit (Json_decode req) (emit (Http_request s (the_request v e self w)) w))"
  by (simp add: api_call_def the_request_def Let_def split: sum.splits json_exception.splits)

lemma getitem_error: "getitem p k = Inl e \<Longrightarrow> e = KeyError k \<or> e = TypeError"
  by (cases p) (auto split: option.splits)

lemma api_call_decoded_no_HTTPError:
  "session self = Some s \<Longrightarrow> \<not> raise_for_status req \<Longrightarrow>
   fst (api_call str v e m (Returns req) self w) \<noteq> Inl HTTPError"
  by (auto simp: api_call_decoded split: sum.splits json_exception.splits dest: getitem_error)

lemma login_no_HTTPError:
  "fst (api_call str GET API_ENDPOINT_LOGIN ''Login error: '' out self
          (setitem ''password'' (password self) (setitem ''email'' (email self) w)))
     \<noteq> Inl HTTPError \<Longrightarrow>
   fst (login str out self w) \<noteq> Inl HTTPError"
  by (auto simp: login_def Let_def split: prod.splits sum.splits dest: getitem_error)

lemma api_call_world:
  "session self = Some s \<Longrightarrow>
   snd (api_call str v e m out self w) =
     (case out of
        Raises err \<Rightarrow> emit (Http_request s (the_request v e self w)) w
      | Returns req \<Rightarrow>
          if raise_for_status req then emit (Http_request s (the_request v e self w)) w
          else emit (Json_decode req) (emit (Http_request s (the_request v e self w)) w))"
  by (cases out) (simp_all add: api_call_raises api_call_http_error api_call_decoded)

lemma api_call_sends:
  assumes "session self = Some s" and "trace w0 = trace w"
  shows "http_requests (new_events w (snd (api_call str v e m out self w0)))
           = [the_request v e self w0]"
  using assms by (cases out) (simp_all add: api_call_world new_events_append)

subsection \<open>When a method issues its request, and what it sends\<close>

lemma login_world:
  "snd (snd (login str out self w)) =
     snd (api_call str GET API_ENDPOINT_LOGIN ''Login error: '' out self
            (setitem ''password'' (password self) (setitem ''email'' (email self) w)))"
  by (simp add: login_def Let_def split: prod.splits sum.splits)

lemma set_user_preference_valid:
  assumes "f = ''Arm'' \<or> f = ''Bypass''"
  shows "set_user_preference str out self (PyStr a) (PyStr b) new_code (PyStr f) w =
           api_call str POST API_ENDPOINT_SET_USER_PREFERANCE
             ''Set user preferance failed with: '' out self
             (setitem ''preference_value'' new_code
               (setitem ''name'' (PyStr (''site.'' @ a @ ''.partition.'' @ b @ ''.storeFor'' @ f))
                 (setitem ''siteId'' (PyStr a) (setitem ''token'' (token self) w))))"
  using assms by (auto simp: set_user_preference_def Let_def)

lemma run_no_session:
  "session self = None \<Longrightarrow> http_requests (new_events w (snd (snd (run str out op self w)))) = []"
  by (cases op)
     (auto simp: op_defs api_call_no_session Let_def new_events_append new_events_def
           split: option.splits sum.splits)

lemma run_bad_args:
  "\<not> args_ok op w \<Longrightarrow> http_requests (new_events w (snd (snd (run str out op self w)))) = []"
  by (cases op)
     (auto simp: op_defs Let_def new_events_def is_str_conv
           split: option.splits sum.splits pyval.splits elim!: str_add.elims)

lemma run_sends:
  assumes "issues_request op self w"
  shows "map params (http_requests (new_events w (snd (snd (run str out op self w)))))
           = [STD_PARAMS (snd (snd (run str out op self w)))]"
proof -
  from assms obtain s where s: "session self = Some s" and ok: "args_ok op w"
    by (auto simp: issues_request_def)
  show ?thesis
    using ok s
    by (cases op; cases out)
       (auto simp: other_defs login_world api_call_world Let_def new_events_append
          the_request_def is_str_conv split: option.splits)
qed

lemma issues_request_iff:
  "issues_request op self w \<longleftrightarrow>
     http_requests (new_events w (snd (snd (run str out op self w)))) \<noteq> []"
proof
  assume "issues_request op self w"
  from run_sends [OF this, of str out]
  show "http_requests (new_events w (snd (snd (run str out op self w)))) \<noteq> []"
    by auto
next
  assume "http_requests (new_events w (snd (snd (run str out op self w)))) \<noteq> []"
  then show "issues_request op self w"
    using run_no_session [of self w str out op] run_bad_args [of op w str out self]
    by (auto simp: issues_request_def)
qed

text \<open>What a method returns once the body has been decoded to a dictionary with a status.\<close>

lemma run_status:
  assumes "issues_request op self w" and "\<not> raise_for_status req"
    and "json req = Inr (PyDict kvs)" and "map_of kvs ''status'' = Some status"
  shows "fst (run str (Returns req) op self w) =
           (if status \<noteq> PyStr ''SUCCESS''
            then Inl (PyAdtSecureHomeError (error_prefix op @ str (PyDict kvs)))
            else if op = Login \<and> map_of kvs ''token'' = None then Inl (KeyError ''token'')
            else Inr (PyDict kvs))"
proof -
  from assms(1) obtain s where s: "session self = Some s" and ok: "args_ok op w"
    by (auto simp: issues_request_def)
  show ?thesis
    using ok s assms(2-4)
    by (cases op)
       (auto simp: op_defs api_call_decoded Let_def is_str_conv split: option.splits)
qed

subsection \<open>The shared dictionary only grows\<close>

lemma STD_PARAMS_keys_kept:
  "STD_PARAMS w k \<noteq> None \<Longrightarrow> STD_PARAMS (snd (snd (run str out op self w))) k \<noteq> None"
proof (cases "session self")
  case None
  then show "STD_PARAMS w k \<noteq> None \<Longrightarrow> ?thesis"
    by (cases op)
       (auto simp: other_defs login_world api_call_no_session Let_def
             split: option.splits sum.splits)
next
  case (Some s)
  then show "STD_PARAMS w k \<noteq> None \<Longrightarrow> ?thesis"
    by (cases op; cases out)
       (auto simp: other_defs login_world api_call_world Let_def
             split: option.splits sum.splits)
qed

lemma login_leaves_credentials:
  "STD_PARAMS (snd (snd (run str out Login self w))) ''email'' = Some (email self) \<and>
   STD_PARAMS (snd (snd (run str out Login self w))) ''password'' = Some (password self)"
proof (cases "session self")
  case None
  then show ?thesis
    by (simp add: login_world api_call_no_session)
next
  case (Some s)
  then show ?thesis
    by (cases out) (simp_all add: login_world api_call_world)
qed

lemma password_written_by_login_only:
  "STD_PARAMS w ''password'' = Some v \<Longrightarrow> op \<noteq> Login \<Longrightarrow>
   STD_PARAMS (snd (snd (run str out op self w))) ''password'' = Some v"
proof (cases "session self")
  case None
  then show "STD_PARAMS w ''password'' = Some v \<Longrightarrow> op \<noteq> Login \<Longrightarrow> ?thesis"
    by (cases op)
       (auto simp: other_defs api_call_no_session Let_def split: option.splits sum.splits)
next
  case (Some s)
  then show "STD_PARAMS w ''password'' = Some v \<Longrightarrow> op \<noteq> Login \<Longrightarrow> ?thesis"
    by (cases op; cases out)
       (auto simp: other_defs api_call_world Let_def split: option.splits sum.splits)
qed

subsection \<open>What login does to the client\<close>

lemma login_client:
  "fst (snd (login str out self w)) =
     (case fst (login str out self w) of
        Inl e \<Rightarrow> self
      | Inr payload \<Rightarrow>
          (case getitem payload ''token'' of Inl e \<Rightarrow> self | Inr t \<Rightarrow> self\<lparr>token := t\<rparr>))"
  by (simp add: login_def Let_def split: prod.splits sum.splits)

lemma login_failure_keeps_client:
  "fst (login str out self w) = Inl e \<Longrightarrow> fst (snd (login str out self w)) = self"
  by (simp add: login_client)

lemma login_stores_token:
  assumes "session self = Some s" and "\<not> raise_for_status req"
    and "json req = Inr (PyDict kvs)" and "map_of kvs ''status'' = Some (PyStr ''SUCCESS'')"
    and "map_of kvs ''token'' = Some t"
  shows "fst (login str (Returns req) self w) = Inr (PyDict kvs)"
    and "fst (snd (login str (Returns req) self w)) = self\<lparr>token := t\<rparr>"
  using assms by (simp_all add: login_def api_call_decoded Let_def)

subsection \<open>Session headers\<close>

lemma update_headers_snoc:
  "update_headers h (kvs @ [(k, v)]) = (update_headers h kvs)(lower k \<mapsto> (k, v))"
  by (simp add: update_headers_def)

lemma update_headers_lookup:
  "update_headers h kvs key =
     (case find (\<lambda>kv. lower (fst kv) = key) (rev kvs) of None \<Rightarrow> h key | Some kv \<Rightarrow> Some kv)"
proof (induction kvs rule: rev_induct)
  case Nil
  then show ?case by (simp add: update_headers_def)
next
  case (snoc kv kvs)
  then show ?case
    by (cases kv) (auto simp: update_headers_snoc)
qed

lemma init_opens_session:
  "session (fst (init REQUEST_HEADER default_headers e p t tok w))
     = Some \<lparr>headers = update_headers default_headers REQUEST_HEADER\<rparr> \<and>
   token (fst (init REQUEST_HEADER default_headers e p t tok w)) = tok \<and>
   http_requests (new_events w (snd (init REQUEST_HEADER default_headers e p t tok w))) = []"
  by (simp add: init_def close_session_def Let_def new_events_def)

section \<open>The claims\<close>

subsection \<open>Parameters of one call in the next call\<close>

text \<open>
  C1 (the code departs from the claim). The claim: a field that call A adds as its own
  extra parameter is absent from the parameters that the next call B sends, because
  the base mapping is never changed in place. In \<^verbatim>\<open>client.py\<close> every method starts
  with \<^verbatim>\<open>_params = STD_PARAMS\<close>, which binds the module's dictionary itself, and then
  assigns into it. Evaluated on a world whose \<^verbatim>\<open>STD_PARAMS\<close> has no password:
  \<^verbatim>\<open>get_sync_info\<close> alone sends the base entry and the token; after \<^verbatim>\<open>login\<close> the
  same call also sends the e-mail address and the password that \<^verbatim>\<open>login\<close> added.
  Lemmas \<open>login_leaves_credentials\<close>, \<open>password_written_by_login_only\<close> and
  \<open>run_sends\<close> give the same for every client, world and following method.
\<close>

theorem password_leaks_into_next_call:
  "STD_PARAMS example_world ''password'' = None \<and>
   map params (http_requests (trace (snd (run_all py_repr
       [(Get_sync_info, Returns status_ok)] example_client example_world))))
     = [[''imei'' \<mapsto> PyStr ''356938035643809'', ''token'' \<mapsto> PyNone]] \<and>
   map params (http_requests (trace (snd (run_all py_repr
       [(Login, Returns login_ok), (Get_sync_info, Returns status_ok)]
       example_client example_world))))
     = [[''imei'' \<mapsto> PyStr ''356938035643809'', ''email'' \<mapsto> PyStr ''user@example.com'',
         ''password'' \<mapsto> PyStr ''secret''],
        [''imei'' \<mapsto> PyStr ''356938035643809'', ''email'' \<mapsto> PyStr ''user@example.com'',
         ''password'' \<mapsto> PyStr ''secret'', ''token'' \<mapsto> PyStr ''abc123'']]"
  by (simp add: example_defs login_ok_def status_ok_def login_def get_sync_info_def
        api_call_def raise_for_status_def Let_def)

subsection \<open>HTTP status\<close>

text \<open>
  C2, as the code has it. Every public method that issues its request and receives a
  response with a status code from 400 to 599 fails with \<^verbatim>\<open>HTTPError\<close>; the client is
  unchanged, exactly one request has been sent and \<^verbatim>\<open>json()\<close> has not been called.
  On a response with any other status code the method does not fail with
  \<^verbatim>\<open>HTTPError\<close>: after its one request it calls \<^verbatim>\<open>json()\<close> on the response.
\<close>

theorem http_error_status:
  assumes "issues_request op self w"
  shows "(400 \<le> status_code req \<and> status_code req < 600 \<longrightarrow>
            (case run str (Returns req) op self w of (r, self', w') \<Rightarrow>
               r = Inl HTTPError \<and> self' = self \<and> json_decodes (new_events w w') = []
               \<and> length (http_requests (new_events w w')) = 1)) \<and>
         (\<not> (400 \<le> status_code req \<and> status_code req < 600) \<longrightarrow>
            (case run str (Returns req) op self w of (r, self', w') \<Rightarrow>
               r \<noteq> Inl HTTPError \<and> json_decodes (new_events w w') = [req]
               \<and> length (http_requests (new_events w w')) = 1))"
proof -
  from assms obtain s where s: "session self = Some s" and ok: "args_ok op w"
    by (auto simp: issues_request_def)
  have raised: "case run str (Returns req) op self w of (r, self', w') \<Rightarrow>
               r = Inl HTTPError \<and> self' = self \<and> json_decodes (new_events w w') = []
               \<and> length (http_requests (new_events w w')) = 1"
    if "400 \<le> status_code req" "status_code req < 600"
  proof -
    from that have rfs: "raise_for_status req"
      by (auto simp: raise_for_status_def)
    show ?thesis
      using ok s rfs
      by (cases op)
         (auto simp: op_defs api_call_http_error Let_def new_events_append is_str_conv
               split: option.splits)
  qed
  have passed: "case run str (Returns req) op self w of (r, self', w') \<Rightarrow>
               r \<noteq> Inl HTTPError \<and> json_decodes (new_events w w') = [req]
               \<and> length (http_requests (new_events w w')) = 1"
    if "\<not> (400 \<le> status_code req \<and> status_code req < 600)"
  proof -
    from that have rfs: "\<not> raise_for_status req"
      by (auto simp: raise_for_status_def)
    have res: "fst (run str (Returns req) op self w) \<noteq> Inl HTTPError"
      using ok s rfs
      by (cases op)
         (auto simp: other_defs api_call_decoded_no_HTTPError login_no_HTTPError Let_def
               is_str_conv split: option.splits)
    have tr: "json_decodes (new_events w (snd (snd (run str (Returns req) op self w)))) = [req]
              \<and> length (http_requests (new_events w (snd (snd (run str (Returns req) op self w))))) = 1"
      using ok s rfs
      by (cases op)
         (auto simp: other_defs login_world api_call_world Let_def new_events_append
               is_str_conv split: option.splits)
    from res tr show ?thesis
      by (simp add: case_prod_unfold)
  qed
  from raised passed show ?thesis
    by auto
qed

theorem http_error_status_witness:
  "issues_request Get_sync_info example_client example_world \<and>
   (400::int) \<le> status_code server_error_500 \<and> status_code server_error_500 < 600 \<and>
   (case run py_repr (Returns server_error_500) Get_sync_info example_client example_world of
      (r, self', w') \<Rightarrow>
        r = Inl HTTPError \<and> self' = example_client
        \<and> json_decodes (new_events example_world w') = []
        \<and> length (http_requests (new_events example_world w')) = 1) \<and>
   \<not> ((400::int) \<le> status_code status_ok \<and> status_code status_ok < 600) \<and>
   (case run py_repr (Returns status_ok) Get_sync_info example_client example_world of
      (r, self', w') \<Rightarrow>
        r \<noteq> Inl HTTPError \<and> json_decodes (new_events example_world w') = [status_ok]
        \<and> length (http_requests (new_events example_world w')) = 1)"
proof -
  have h1: "issues_request Get_sync_info example_client example_world"
    by (simp add: issues_request_def example_defs)
  have h2: "400 \<le> status_code server_error_500 \<and> status_code server_error_500 < 600"
    by (simp add: server_error_500_def)
  have h3: "\<not> (400 \<le> status_code status_ok \<and> status_code status_ok < 600)"
    by (simp add: status_ok_def)
  from http_error_status [OF h1, of server_error_500 py_repr]
       http_error_status [OF h1, of status_ok py_repr] h1 h2 h3
  show ?thesis
    by auto
qed

text \<open>
  C2 as stated, for any status code outside 200 to 299, fails: redirects are not
  followed, so a 302 reaches the client, \<^verbatim>\<open>raise_for_status\<close> lets it pass, and the
  method goes on to decode the body.
\<close>

theorem redirect_status_is_decoded:
  "issues_request Get_sync_info example_client example_world \<and>
   status_code redirect_302 = 302 \<and>
   fst (run py_repr (Returns redirect_302) Get_sync_info example_client example_world)
     \<noteq> Inl HTTPError \<and>
   json_decodes (trace (snd (snd
     (run py_repr (Returns redirect_302) Get_sync_info example_client example_world))))
     = [redirect_302]"
  by (simp add: issues_request_def example_defs redirect_302_def get_sync_info_def
        api_call_def raise_for_status_def Let_def)

subsection \<open>The status field\<close>




subsection \<open>Login and the token\<close>

text \<open>
  C4 (the code departs from the claim). The claim: on the body with status
  \<^verbatim>\<open>SUCCESS\<close> and token \<^verbatim>\<open>abc123\<close>, \<^verbatim>\<open>login\<close> stores the token, returns the body,
  and changes no other state. Evaluated on that body, \<^verbatim>\<open>login\<close> returns the body and
  the client differs in its token only, but the module's \<^verbatim>\<open>STD_PARAMS\<close> has changed
  too: it now holds the e-mail address and the password. Lemmas \<open>login_stores_token\<close>,
  \<open>login_client\<close> and \<open>login_failure_keeps_client\<close> give the behaviour of the token
  for every input.
\<close>

theorem login_writes_module_state:
  "fst (run py_repr (Returns login_ok) Login example_client example_world)
     = Inr (PyDict [(''status'', PyStr ''SUCCESS''), (''token'', PyStr ''abc123'')]) \<and>
   fst (snd (run py_repr (Returns login_ok) Login example_client example_world))
     = example_client\<lparr>token := PyStr ''abc123''\<rparr> \<and>
   STD_PARAMS example_world = [''imei'' \<mapsto> PyStr ''356938035643809''] \<and>
   STD_PARAMS (snd (snd (run py_repr (Returns login_ok) Login example_client example_world)))
     = [''imei'' \<mapsto> PyStr ''356938035643809'', ''email'' \<mapsto> PyStr ''user@example.com'',
        ''password'' \<mapsto> PyStr ''secret''] \<and>
   STD_PARAMS (snd (snd (run py_repr (Returns login_ok) Login example_client example_world)))
     \<noteq> STD_PARAMS example_world"
proof -
  have "[''imei'' \<mapsto> PyStr ''356938035643809'', ''email'' \<mapsto> PyStr ''user@example.com'',
         ''password'' \<mapsto> PyStr ''secret''] ''password''
        \<noteq> [''imei'' \<mapsto> PyStr ''356938035643809''] ''password''"
    by simp
  then have "[''imei'' \<mapsto> PyStr ''356938035643809'', ''email'' \<mapsto> PyStr ''user@example.com'',
         ''password'' \<mapsto> PyStr ''secret'']
        \<noteq> [''imei'' \<mapsto> PyStr ''356938035643809'']"
    by metis
  then show ?thesis
    by (simp add: example_defs login_ok_def login_def api_call_def raise_for_status_def Let_def)
qed

subsection \<open>Setting a user preference\<close>

text \<open>
  C5. \<^verbatim>\<open>set_user_preference\<close> with a \<^verbatim>\<open>store_for\<close> that is neither \<^verbatim>\<open>Arm\<close> nor
  \<^verbatim>\<open>Bypass\<close> fails with \<^verbatim>\<open>PyAdtSecureHomeError\<close> and leaves the world as it was: no
  parameter has been built and no request has been issued, whatever the transport
  would have answered.
\<close>

theorem invalid_store_for_fails_first:
  assumes "store_for \<noteq> PyStr ''Arm''" and "store_for \<noteq> PyStr ''Bypass''"
  shows "set_user_preference str out self site_id partition_id new_code store_for w =
           (Inl (PyAdtSecureHomeError ''Invalid selection, choose between Arm or Bypass''), w)"
  using assms by (simp add: set_user_preference_def)

theorem invalid_store_for_fails_first_witness:
  "PyStr ''Invalid'' \<noteq> PyStr ''Arm'' \<and> PyStr ''Invalid'' \<noteq> PyStr ''Bypass'' \<and>
   set_user_preference py_repr (Returns status_ok) example_client
       (PyStr ''1'') (PyStr ''2'') (PyInt 1234) (PyStr ''Invalid'') example_world =
     (Inl (PyAdtSecureHomeError ''Invalid selection, choose between Arm or Bypass''),
      example_world) \<and>
   http_requests (trace example_world) = []"
proof -
  have h1: "PyStr ''Invalid'' \<noteq> PyStr ''Arm''" and h2: "PyStr ''Invalid'' \<noteq> PyStr ''Bypass''"
    by simp_all
  from invalid_store_for_fails_first [OF h1 h2] h1 h2 show ?thesis
    by (simp add: example_world_def)
qed

text \<open>
  C6. \<^verbatim>\<open>set_user_preference\<close> with site \<^verbatim>\<open>"1"\<close>, partition \<^verbatim>\<open>"2"\<close>, code 1234 and
  \<^verbatim>\<open>"Arm"\<close>, on a client that has a session, sends exactly one request, a POST,
  whose parameter \<^verbatim>\<open>name\<close> is the string \<^verbatim>\<open>site.1.partition.2.storeForArm\<close>.
  Lemma \<open>set_user_preference_valid\<close> has the composition for all identifiers.
\<close>

theorem set_user_preference_name:
  assumes "session self = Some s"
  shows "length (http_requests (new_events w (snd (set_user_preference str out self
             (PyStr ''1'') (PyStr ''2'') (PyInt 1234) (PyStr ''Arm'') w)))) = 1 \<and>
         verb (hd (http_requests (new_events w (snd (set_user_preference str out self
             (PyStr ''1'') (PyStr ''2'') (PyInt 1234) (PyStr ''Arm'') w))))) = POST \<and>
         params (hd (http_requests (new_events w (snd (set_user_preference str out self
             (PyStr ''1'') (PyStr ''2'') (PyInt 1234) (PyStr ''Arm'') w))))) ''name''
           = Some (PyStr ''site.1.partition.2.storeForArm'')"
  using assms by (simp add: set_user_preference_valid api_call_sends the_request_def)

theorem set_user_preference_name_witness:
  "session example_client = Some example_session \<and>
   params (hd (http_requests (new_events example_world (snd (set_user_preference py_repr
       (Returns status_ok) example_client
       (PyStr ''1'') (PyStr ''2'') (PyInt 1234) (PyStr ''Arm'') example_world))))) ''name''
     = Some (PyStr ''site.1.partition.2.storeForArm'')"
proof -
  have h: "session example_client = Some example_session"
    by (simp add: example_client_def)
  from set_user_preference_name [OF h, of example_world py_repr "Returns status_ok"] h
  show ?thesis
    by simp
qed

subsection \<open>Bodies that are not JSON\<close>

text \<open>
  C7, as the code has it. Every public method that issues its request and receives a
  response with a status code from 200 to 299: if \<^verbatim>\<open>json()\<close> raises a \<^verbatim>\<open>ValueError\<close>,
  as the decoder does on a body that is not JSON, the method fails with
  \<^verbatim>\<open>PyAdtSecureHomeError\<close>, and the message holds the reason of the decoding failure
  and the raw text of the response; if \<^verbatim>\<open>json()\<close> raises \<^verbatim>\<open>RecursionError\<close>, as the
  decoder does on a body nested too deep, the method leaves with that
  \<^verbatim>\<open>RecursionError\<close>. In both cases the client is as it was.
\<close>

theorem undecodable_body:
  assumes "issues_request op self w" and "200 \<le> status_code req" and "status_code req < 300"
  shows "(json req = Inl (json_ValueError reason) \<longrightarrow>
            run str (Returns req) op self w =
              (Inl (PyAdtSecureHomeError (''Impossible to decode response: '' @ reason
                      @ [CHR 0x0A] @ ''Response was: '' @ resp_text req)),
               self, snd (snd (run str (Returns req) op self w)))
            \<and> sublist (resp_text req) (''Impossible to decode response: '' @ reason
                      @ [CHR 0x0A] @ ''Response was: '' @ resp_text req)
            \<and> sublist reason (''Impossible to decode response: '' @ reason
                      @ [CHR 0x0A] @ ''Response was: '' @ resp_text req)) \<and>
         (json req = Inl json_RecursionError \<longrightarrow>
            run str (Returns req) op self w =
              (Inl RecursionError, self, snd (snd (run str (Returns req) op self w))))"
proof -
  let ?msg = "''Impossible to decode response: '' @ reason
                @ [CHR 0x0A] @ ''Response was: '' @ resp_text req"
  from assms(1) obtain s where s: "session self = Some s" and ok: "args_ok op w"
    by (auto simp: issues_request_def)
  from assms(2,3) have rfs: "\<not> raise_for_status req"
    by (rule status_2xx)
  have caught: "run str (Returns req) op self w =
      (Inl (PyAdtSecureHomeError ?msg), self, snd (snd (run str (Returns req) op self w)))"
    if "json req = Inl (json_ValueError reason)"
    using ok s rfs that
    by (cases op)
       (auto simp: op_defs api_call_decoded Let_def is_str_conv split: option.splits)
  have escapes: "run str (Returns req) op self w =
      (Inl RecursionError, self, snd (snd (run str (Returns req) op self w)))"
    if "json req = Inl json_RecursionError"
    using ok s rfs that
    by (cases op)
       (auto simp: op_defs api_call_decoded Let_def is_str_conv split: option.splits)
  have text_in: "sublist (resp_text req) ?msg"
    unfolding sublist_def
    by (rule exI [of _ "''Impossible to decode response: '' @ reason
                          @ [CHR 0x0A] @ ''Response was: ''"],
        rule exI [of _ "[]"]) simp
  have reason_in: "sublist reason ?msg"
    unfolding sublist_def
    by (rule exI [of _ "''Impossible to decode response: ''"],
        rule exI [of _ "[CHR 0x0A] @ ''Response was: '' @ resp_text req"]) simp
  from caught escapes text_in reason_in show ?thesis by blast
qed

theorem undecodable_body_witness:
  "issues_request Get_state_info example_client example_world \<and>
   (200::int) \<le> status_code not_json \<and> status_code not_json < 300 \<and>
   json not_json = Inl (json_ValueError ''Expecting value: line 1 column 1 (char 0)'') \<and>
   fst (run py_repr (Returns not_json) Get_state_info example_client example_world) =
     Inl (PyAdtSecureHomeError (''Impossible to decode response: ''
            @ ''Expecting value: line 1 column 1 (char 0)''
            @ [CHR 0x0A] @ ''Response was: '' @ ''<html>maintenance</html>'')) \<and>
   (200::int) \<le> status_code deeply_nested \<and> status_code deeply_nested < 300 \<and>
   json deeply_nested = Inl json_RecursionError \<and>
   fst (run py_repr (Returns deeply_nested) Get_state_info example_client example_world) =
     Inl RecursionError"
proof -
  have h1: "issues_request Get_state_info example_client example_world"
    by (simp add: issues_request_def example_defs)
  have h2: "200 \<le> status_code not_json" and h3: "status_code not_json < 300"
    and h4: "json not_json = Inl (json_ValueError ''Expecting value: line 1 column 1 (char 0)'')"
    by (simp_all add: not_json_def)
  have t: "resp_text not_json = ''<html>maintenance</html>''"
    by (simp add: not_json_def)
  have k2: "200 \<le> status_code deeply_nested" and k3: "status_code deeply_nested < 300"
    and k4: "json deeply_nested = Inl json_RecursionError"
    by (simp_all add: deeply_nested_def)
  from undecodable_body
         [OF h1 h2 h3, of "''Expecting value: line 1 column 1 (char 0)''" py_repr] h4 t
  have r1: "fst (run py_repr (Returns not_json) Get_state_info example_client example_world) =
     Inl (PyAdtSecureHomeError (''Impossible to decode response: ''
            @ ''Expecting value: line 1 column 1 (char 0)''
            @ [CHR 0x0A] @ ''Response was: '' @ ''<html>maintenance</html>''))"
    by (metis fst_conv)
  from undecodable_body [OF h1 k2 k3, of "[]" py_repr] k4
  have r2: "fst (run py_repr (Returns deeply_nested) Get_state_info example_client example_world)
              = Inl RecursionError"
    by (metis fst_conv)
  from h1 h2 h3 h4 k2 k3 k4 r1 r2 show ?thesis
    by blast
qed

text \<open>
  C7 as stated, for every body that is not parseable as JSON, fails: on a body of
  100000 opening brackets, which is not JSON, the decoder raises \<^verbatim>\<open>RecursionError\<close>,
  the clause \<^verbatim>\<open>except ValueError\<close> does not catch it, and the method leaves with it
  instead of \<^verbatim>\<open>PyAdtSecureHomeError\<close>.
\<close>

theorem deep_nesting_escapes_as_RecursionError:
  "issues_request Get_state_info example_client example_world \<and>
   status_code deeply_nested = 200 \<and>
   json deeply_nested = Inl json_RecursionError \<and>
   fst (run py_repr (Returns deeply_nested) Get_state_info example_client example_world)
     = Inl RecursionError"
proof -
  have h1: "issues_request Get_state_info example_client example_world"
    by (simp add: issues_request_def example_defs)
  have sc: "status_code deeply_nested = 200"
    and j: "json deeply_nested = Inl json_RecursionError"
    by (simp_all add: deeply_nested_def)
  have rfs: "\<not> raise_for_status deeply_nested"
    by (simp add: raise_for_status_def sc)
  have s: "session example_client = Some example_session"
    by (simp add: example_client_def)
  have "fst (run py_repr (Returns deeply_nested) Get_state_info example_client example_world)
          = Inl RecursionError"
    by (simp add: get_state_info_def api_call_decoded [OF s rfs] j)
  with h1 sc j show ?thesis
    by simp
qed

subsection \<open>Transport failures\<close>

text \<open>
  C8, as the code has it. Every public method that issues its request and whose
  transport raises: if the exception is a \<^verbatim>\<open>requests.ConnectionError\<close> or one of its
  subclasses (unreachable host, proxy failure, SSL failure, connect timeout), the
  method fails with \<^verbatim>\<open>InvalidURL\<close>, not with \<^verbatim>\<open>PyAdtSecureHomeError\<close> and not with the
  transport's exception; if it is a \<^verbatim>\<open>requests.HTTPError\<close>, the method fails with
  \<^verbatim>\<open>HTTPError\<close>; any other exception of the transport (a read timeout among them) is
  not caught and leaves the method as it is. In every case the client is as it was,
  one request has been issued and \<^verbatim>\<open>json()\<close> has not been called.
\<close>

theorem transport_exception_classified:
  assumes "issues_request op self w"
  shows "(isinstance_ConnectionError err \<longrightarrow>
            fst (run str (Raises err) op self w)
              = Inl (InvalidURL ''A Invalid URL or Proxy error occured'')) \<and>
         (\<not> isinstance_ConnectionError err \<and> isinstance_HTTPError err \<longrightarrow>
            fst (run str (Raises err) op self w) = Inl HTTPError) \<and>
         (\<not> isinstance_ConnectionError err \<and> \<not> isinstance_HTTPError err \<longrightarrow>
            fst (run str (Raises err) op self w) = Inl (Uncaught err)) \<and>
         fst (snd (run str (Raises err) op self w)) = self \<and>
         length (http_requests (new_events w (snd (snd (run str (Raises err) op self w))))) = 1 \<and>
         json_decodes (new_events w (snd (snd (run str (Raises err) op self w)))) = []"
proof -
  from assms obtain s where s: "session self = Some s" and ok: "args_ok op w"
    by (auto simp: issues_request_def)
  have res: "fst (run str (Raises err) op self w) =
               (if isinstance_ConnectionError err
                then Inl (InvalidURL ''A Invalid URL or Proxy error occured'')
                else if isinstance_HTTPError err then Inl HTTPError else Inl (Uncaught err))"
    using ok s
    by (cases op)
       (auto simp: op_defs api_call_raises Let_def is_str_conv split: option.splits)
  have cl: "fst (snd (run str (Raises err) op self w)) = self"
    using ok s
    by (cases op)
       (auto simp: op_defs api_call_raises Let_def is_str_conv split: option.splits)
  have tr: "length (http_requests (new_events w (snd (snd (run str (Raises err) op self w))))) = 1
            \<and> json_decodes (new_events w (snd (snd (run str (Raises err) op self w)))) = []"
    using ok s
    by (cases op)
       (auto simp: other_defs login_world api_call_world Let_def new_events_append
             is_str_conv split: option.splits)
  from res cl tr show ?thesis
    by simp
qed

theorem transport_exception_classified_witness:
  "issues_request Check_app_version example_client example_world \<and>
   isinstance_ConnectionError requests_ProxyError \<and>
   fst (run py_repr (Raises requests_ProxyError) Check_app_version example_client example_world)
     = Inl (InvalidURL ''A Invalid URL or Proxy error occured'') \<and>
   \<not> isinstance_ConnectionError requests_HTTPError \<and> isinstance_HTTPError requests_HTTPError \<and>
   fst (run py_repr (Raises requests_HTTPError) Check_app_version example_client example_world)
     = Inl HTTPError \<and>
   \<not> isinstance_ConnectionError requests_ReadTimeout \<and>
   \<not> isinstance_HTTPError requests_ReadTimeout \<and>
   fst (run py_repr (Raises requests_ReadTimeout) Check_app_version example_client example_world)
     = Inl (Uncaught requests_ReadTimeout)"
proof -
  have h1: "issues_request Check_app_version example_client example_world"
    by (simp add: issues_request_def example_defs)
  from transport_exception_classified [OF h1, of requests_ProxyError py_repr]
       transport_exception_classified [OF h1, of requests_HTTPError py_repr]
       transport_exception_classified [OF h1, of requests_ReadTimeout py_repr] h1
  show ?thesis
    by simp
qed

text \<open>
  C8 as stated, for every transport failure and with no raw transport exception ever
  reaching the caller, fails: a read timeout is not a \<^verbatim>\<open>requests.ConnectionError\<close>,
  no clause catches it, and the method leaves with the transport's own exception
  instead of \<^verbatim>\<open>InvalidURL\<close>.
\<close>

theorem read_timeout_escapes_raw:
  "issues_request Get_sync_info example_client example_world \<and>
   fst (run py_repr (Raises requests_ReadTimeout) Get_sync_info example_client example_world)
     = Inl (Uncaught requests_ReadTimeout) \<and>
   fst (run py_repr (Raises requests_ReadTimeout) Get_sync_info example_client example_world)
     \<noteq> Inl (InvalidURL ''A Invalid URL or Proxy error occured'')"
  by (simp add: issues_request_def example_defs get_sync_info_def api_call_def Let_def)

subsection \<open>Closing the session\<close>

text \<open>
  C9. \<^verbatim>\<open>logout\<close> is \<^verbatim>\<open>close_session\<close>. \<^verbatim>\<open>close_session\<close> closes the session the
  client has, if it has one, creates a new one and updates its headers with
  \<^verbatim>\<open>REQUEST_HEADER\<close>; e-mail address, password, token and timeout of the client and
  the module's parameters stay as they were. It is defined for a client without a
  session as well. Afterwards the client has a session, and a method whose arguments
  pass and that receives a successful response returns the payload.
\<close>

theorem close_session_resets_session_only:
  "logout REQUEST_HEADER default_headers self w
     = close_session REQUEST_HEADER default_headers self w \<and>
   (case close_session REQUEST_HEADER default_headers self w of
      (self', w') \<Rightarrow>
        self' = self\<lparr>session := Some \<lparr>headers = update_headers default_headers REQUEST_HEADER\<rparr>\<rparr>
        \<and> email self' = email self \<and> password self' = password self
        \<and> token self' = token self \<and> timeout self' = timeout self
        \<and> STD_PARAMS w' = STD_PARAMS w
        \<and> new_events w w' =
            (case session self of None \<Rightarrow> [] | Some s \<Rightarrow> [Session_close s])
            @ [Session_new \<lparr>headers = default_headers\<rparr>]
        \<and> (args_ok op w \<and> \<not> raise_for_status req \<and> json req = Inr (PyDict kvs)
             \<and> map_of kvs ''status'' = Some (PyStr ''SUCCESS'')
             \<and> (op = Login \<longrightarrow> map_of kvs ''token'' \<noteq> None)
            \<longrightarrow> fst (run str (Returns req) op self' w') = Inr (PyDict kvs)))"
proof -
  obtain self' w' where cs: "close_session REQUEST_HEADER default_headers self w = (self', w')"
    by (cases "close_session REQUEST_HEADER default_headers self w")
  from cs have self': "self' = self\<lparr>session :=
        Some \<lparr>headers = update_headers default_headers REQUEST_HEADER\<rparr>\<rparr>"
    and std: "STD_PARAMS w' = STD_PARAMS w"
    and tr: "trace w' = trace w
               @ (case session self of None \<Rightarrow> [] | Some s \<Rightarrow> [Session_close s])
               @ [Session_new \<lparr>headers = default_headers\<rparr>]"
    by (auto simp: close_session_def Let_def split: option.splits)
  have ok: "args_ok op w' = args_ok op w"
    using std by (cases op) simp_all
  have usable: "fst (run str (Returns req) op self' w') = Inr (PyDict kvs)"
    if "args_ok op w" "\<not> raise_for_status req" "json req = Inr (PyDict kvs)"
       "map_of kvs ''status'' = Some (PyStr ''SUCCESS'')"
       "op = Login \<longrightarrow> map_of kvs ''token'' \<noteq> None"
  proof -
    from that(1) ok self' have "issues_request op self' w'"
      by (simp add: issues_request_def)
    from run_status [OF this that(2,3,4), of str] that(5) show ?thesis
      by auto
  qed
  show ?thesis
    using cs self' std usable by (simp add: logout_def new_events_append [OF tr])
qed

theorem close_session_resets_session_only_witness:
  "(case close_session example_REQUEST_HEADER example_default_headers
           example_client example_world of
      (self', w') \<Rightarrow>
        token self' = token example_client
        \<and> map_option headers (session self') = Some
             [''user-agent'' \<mapsto> (''User-Agent'', ''okhttp/3.12.1''),
              ''accept'' \<mapsto> (''Accept'', ''*/*'')]
        \<and> trace w' = [Session_close example_session,
                       Session_new \<lparr>headers = example_default_headers\<rparr>]
        \<and> args_ok Login example_world \<and> \<not> raise_for_status login_ok
        \<and> fst (run py_repr (Returns login_ok) Login self' w')
            = Inr (PyDict [(''status'', PyStr ''SUCCESS''), (''token'', PyStr ''abc123'')])) \<and>
   (case close_session example_REQUEST_HEADER example_default_headers
           (example_client\<lparr>session := None\<rparr>) example_world of
      (self', w') \<Rightarrow>
        session self' \<noteq> None
        \<and> trace w' = [Session_new \<lparr>headers = example_default_headers\<rparr>])"
proof -
  let ?kvs = "[(''status'', PyStr ''SUCCESS''), (''token'', PyStr ''abc123'')]"
  have a: "args_ok Login example_world" by simp
  have b: "\<not> raise_for_status login_ok"
    by (simp add: raise_for_status_def login_ok_def)
  have c: "json login_ok = Inr (PyDict ?kvs)"
    by (simp add: login_ok_def)
  have l: "lower ''User-Agent'' = ''user-agent''"
    by code_simp
  have h: "update_headers example_default_headers example_REQUEST_HEADER
             = [''user-agent'' \<mapsto> (''User-Agent'', ''okhttp/3.12.1''),
                ''accept'' \<mapsto> (''Accept'', ''*/*'')]"
    by (auto simp: update_headers_def example_REQUEST_HEADER_def example_default_headers_def l)
  have e: "new_events example_world w' = trace w'" for w'
    by (simp add: new_events_def example_world_def)
  from close_session_resets_session_only
         [of example_REQUEST_HEADER example_default_headers example_client example_world
             Login login_ok ?kvs py_repr]
       close_session_resets_session_only
         [of example_REQUEST_HEADER example_default_headers "example_client\<lparr>session := None\<rparr>"
             example_world Login login_ok ?kvs py_repr]
       a b c
  show ?thesis
    by (auto simp: h e example_client_def split: prod.splits)
qed

subsection \<open>Missing keys\<close>

text \<open>
  C10. When the request succeeds and the body decodes to a dictionary without a
  \<^verbatim>\<open>status\<close> entry, every public method raises \<^verbatim>\<open>KeyError\<close>, which is none of
  \<^verbatim>\<open>InvalidURL\<close>, \<^verbatim>\<open>HTTPError\<close> and \<^verbatim>\<open>PyAdtSecureHomeError\<close>; and \<^verbatim>\<open>login\<close> on a
  dictionary whose status is \<^verbatim>\<open>SUCCESS\<close> and that has no \<^verbatim>\<open>token\<close> entry raises
  \<^verbatim>\<open>KeyError\<close> too. In both cases the client is as it was.
\<close>

theorem missing_key_is_KeyError:
  assumes "issues_request op self w" and "\<not> raise_for_status req"
    and "json req = Inr (PyDict kvs)"
  shows "(map_of kvs ''status'' = None \<longrightarrow>
            run str (Returns req) op self w
              = (Inl (KeyError ''status''), self, snd (snd (run str (Returns req) op self w)))) \<and>
         (op = Login \<and> map_of kvs ''status'' = Some (PyStr ''SUCCESS'')
            \<and> map_of kvs ''token'' = None \<longrightarrow>
            run str (Returns req) op self w
              = (Inl (KeyError ''token''), self, snd (snd (run str (Returns req) op self w))))"
proof -
  from assms(1) obtain s where s: "session self = Some s" and ok: "args_ok op w"
    by (auto simp: issues_request_def)
  show ?thesis
    using ok s assms(2,3)
    by (cases op)
       (auto simp: op_defs api_call_decoded Let_def is_str_conv split: option.splits)
qed

theorem missing_key_is_KeyError_witness:
  "issues_request Site_notifications example_client example_world \<and>
   issues_request Login example_client example_world \<and>
   \<not> raise_for_status no_status \<and> \<not> raise_for_status status_ok \<and>
   fst (run py_repr (Returns no_status) Site_notifications example_client example_world)
     = Inl (KeyError ''status'') \<and>
   fst (run py_repr (Returns status_ok) Login example_client example_world)
     = Inl (KeyError ''token'') \<and>
   token (fst (snd (run py_repr (Returns status_ok) Login example_client example_world)))
     = token example_client"
proof -
  have a1: "issues_request Site_notifications example_client example_world"
    and a2: "issues_request Login example_client example_world"
    by (simp_all add: issues_request_def example_defs)
  have b1: "\<not> raise_for_status no_status" and b2: "\<not> raise_for_status status_ok"
    by (simp_all add: raise_for_status_def no_status_def status_ok_def)
  have c1: "json no_status = Inr (PyDict [(''sites'', PyList [])])"
    and c2: "json status_ok = Inr (PyDict [(''status'', PyStr ''SUCCESS'')])"
    by (simp_all add: no_status_def status_ok_def)
  have "run py_repr (Returns no_status) Site_notifications example_client example_world
          = (Inl (KeyError ''status''), example_client,
             snd (snd (run py_repr (Returns no_status) Site_notifications
                         example_client example_world)))"
    using missing_key_is_KeyError [OF a1 b1 c1, of py_repr] by simp
  then have r1: "fst (run py_repr (Returns no_status) Site_notifications
                        example_client example_world) = Inl (KeyError ''status'')"
    by (metis fst_conv)
  have "run py_repr (Returns status_ok) Login example_client example_world
          = (Inl (KeyError ''token''), example_client,
             snd (snd (run py_repr (Returns status_ok) Login example_client example_world)))"
    using missing_key_is_KeyError [OF a2 b2 c2, of py_repr] by simp
  then have r2: "fst (run py_repr (Returns status_ok) Login example_client example_world)
          = Inl (KeyError ''token'')"
     and r3: "fst (snd (run py_repr (Returns status_ok) Login example_client example_world))
          = example_client"
    by (metis fst_conv, metis fst_conv snd_conv)
  from a1 a2 b1 b2 r1 r2 r3 show ?thesis
    by simp
qed

end
